theory Spec2Isabelle
  imports Main
begin

section \<open>Data model\<close>

text \<open>
  The persisted \<open>User\<close> row as the Prisma schema types it: \<open>id\<close> a string,
  \<open>email\<close> nullable, \<open>isSubscriber\<close> a boolean. The field \<open>id\<close> is written
  \<open>user_id\<close> since \<open>id\<close> is the identity function of HOL; the other fields carry
  the same prefix.
\<close>

record User =
  user_id :: string
  user_email :: "string option"
  user_isSubscriber :: bool

text \<open>
  The object \<open>session.user\<close> that next-auth hands to the session callback and that
  \<open>useSession\<close> returns to the pages. Every property may be missing (\<open>None\<close>);
  \<open>id\<close> and \<open>isSubscriber\<close> are the two properties that \<open>auth.js\<close> adds.
\<close>

record session_user =
  su_name :: "string option"
  su_email :: "string option"
  su_image :: "string option"
  su_id :: "string option"
  su_isSubscriber :: "bool option"

text \<open>
  The session object: \<open>user\<close> is optional in next-auth's type, and a property
  assignment on a missing \<open>user\<close> raises a \<open>TypeError\<close>.
\<close>

record session =
  user :: "session_user option"
  expires :: string

datatype js_error = TypeError

section \<open>\<open>auth.js\<close>: session configuration and session callback\<close>



text \<open>
  \<open>callbacks.session\<close>: when a user row is passed, its identifier and its flag are
  written into \<open>session.user\<close>; the session is returned. \<open>None\<close> for the second
  argument is a falsy \<open>user\<close>.
\<close>

definition session_callback :: "session \<Rightarrow> User option \<Rightarrow> js_error + session" where
  "session_callback s u_opt =
     (case u_opt of
        Some u \<Rightarrow>
          (case user s of
             None \<Rightarrow> Inl TypeError
           | Some su \<Rightarrow>
               Inr (s\<lparr>user := Some (su\<lparr>su_id := Some (user_id u),
                                        su_isSubscriber := Some (user_isSubscriber u)\<rparr>)\<rparr>))
      | None \<Rightarrow> Inr s)"

section \<open>\<open>pages/index.js\<close>: the Home component\<close>

text \<open>
  What \<open>useSession()\<close> returns: \<open>data\<close> (the session, or null/undefined, here
  \<open>None\<close>) and \<open>status\<close>, a string.
\<close>

record use_session =
  data :: "session option"
  status :: string

text \<open>
  The JSX tree of the landing page is kept by what identifies it: its title and the
  target of its one link.
\<close>

record page =
  title :: string
  link_href :: string

definition landing_page :: page where
  "landing_page = \<lparr>title = ''Private Area'', link_href = ''/api/auth/signin''\<rparr>"

text \<open>
  A render of \<open>Home\<close> returns \<open>null\<close>, nothing (\<open>undefined\<close>) or an element, and
  may have called \<open>router.push\<close>; the paths pushed are recorded in order.
\<close>

datatype rendered = Null | Undefined | Element page

record outcome =
  returned :: rendered
  pushed :: "string list"

definition Home :: "use_session \<Rightarrow> outcome" where
  "Home r =
     (let session = data r;
          loading = (status r = ''loading'')
      in if loading then \<lparr>returned = Null, pushed = []\<rparr>
         else if session \<noteq> None then \<lparr>returned = Undefined, pushed = [''/members'']\<rparr>
         else \<lparr>returned = Element landing_page, pushed = []\<rparr>)"

text \<open>
  The three destinations of the specification, read off an outcome: a single push to
  \<open>/members\<close> is the members destination, a single push to \<open>/join\<close> (the checkout
  entry route) the checkout destination, the landing page rendered with no push the
  landing destination. Any other outcome is none of the three.
\<close>

datatype destination = Landing | Checkout | Members

definition destination_of :: "outcome \<Rightarrow> destination option" where
  "destination_of out =
     (if pushed out = [''/members''] then Some Members
      else if pushed out = [''/join''] then Some Checkout
      else if pushed out = [] \<and> returned out = Element landing_page then Some Landing
      else None)"

section \<open>Session lifetime under the configured options\<close>









section \<open>The two payment routes\<close>

datatype api_error = Unauthorized | NotFound

text \<open>
  Modelled from the spec: \<open>pages/api/stripe/session.js\<close> (the Checkout Session
  Initiator) is not among the sources; only the arguments of its call to
  \<open>stripe.checkout.sessions.create\<close> are quoted in the upgrade plan. Following section
  4.2 of the specification: the input is the authenticated user identifier, rejected
  with an authorization error when absent; otherwise the payment processor is asked for
  a hosted session for the one configured price, with the user identifier as correlation
  reference and the fixed success and cancel addresses, and the address of the hosted
  page is returned. The processor is the parameter \<open>create\<close>; no local state is touched.
\<close>

record env =
  STRIPE_PRICE_ID :: string
  BASE_URL :: string

record checkout_params =
  billing_address_collection :: string
  price :: string
  quantity :: nat
  mode :: string
  success_url :: string
  cancel_url :: string
  client_reference_id :: string

definition stripe_session ::
    "env \<Rightarrow> (checkout_params \<Rightarrow> string) \<Rightarrow> string option \<Rightarrow> api_error + string" where
  "stripe_session e create uid_opt =
     (case uid_opt of
        None \<Rightarrow> Inl Unauthorized
      | Some uid \<Rightarrow>
          Inr (create \<lparr>billing_address_collection = ''auto'',
                       price = STRIPE_PRICE_ID e,
                       quantity = 1,
                       mode = ''subscription'',
                       success_url = BASE_URL e @ ''/success?session_id={CHECKOUT_SESSION_ID}'',
                       cancel_url = BASE_URL e @ ''/cancelled'',
                       client_reference_id = uid\<rparr>))"

text \<open>
  Modelled from the spec: \<open>pages/api/stripe/success.js\<close> (the Payment Confirmation
  Handler) is not among the sources. Following sections 4.3, 7 and 8 of the
  specification: the input is a payment-session reference, possibly missing; the handler
  asks the payment processor for the session behind the reference and requires a
  completed payment; the session's correlation reference names the user; that user's
  subscription flag is set to true. A missing or unknown reference, a payment that is not
  completed, a session with no correlation reference, and a correlation reference that
  names no stored user all leave the store as it is and report not-found. The processor
  is the parameter \<open>retrieve\<close>, the user table a map from identifiers to rows.
\<close>

record checkout_session =
  reference :: "string option"
  completed :: bool

definition stripe_success ::
    "(string \<rightharpoonup> checkout_session) \<Rightarrow> string option \<Rightarrow> (string \<rightharpoonup> User) \<Rightarrow>
     (api_error + unit) \<times> (string \<rightharpoonup> User)" where
  "stripe_success retrieve ref_opt store =
     (case ref_opt of
        None \<Rightarrow> (Inl NotFound, store)
      | Some ref \<Rightarrow>
          (case retrieve ref of
             None \<Rightarrow> (Inl NotFound, store)
           | Some cs \<Rightarrow>
               if \<not> completed cs then (Inl NotFound, store)
               else
                 (case reference cs of
                    None \<Rightarrow> (Inl NotFound, store)
                  | Some uid \<Rightarrow>
                      (case store uid of
                         None \<Rightarrow> (Inl NotFound, store)
                       | Some u \<Rightarrow>
                           (Inr (), store(uid \<mapsto> u\<lparr>user_isSubscriber := True\<rparr>))))))"

section \<open>Facts about \<open>Home\<close>\<close>

lemma Home_when_loading:
  "status r = ''loading'' \<Longrightarrow> Home r = \<lparr>returned = Null, pushed = []\<rparr>"
  by (simp add: Home_def)

lemma Home_when_session:
  "status r \<noteq> ''loading'' \<Longrightarrow> data r = Some s \<Longrightarrow>
   Home r = \<lparr>returned = Undefined, pushed = [''/members'']\<rparr>"
  by (simp add: Home_def)

lemma Home_when_absent:
  "status r \<noteq> ''loading'' \<Longrightarrow> data r = None \<Longrightarrow>
   Home r = \<lparr>returned = Element landing_page, pushed = []\<rparr>"
  by (simp add: Home_def)

lemma destination_of_members [simp]:
  "destination_of \<lparr>returned = x, pushed = [''/members'']\<rparr> = Some Members"
  by (simp add: destination_of_def)

lemma destination_of_landing [simp]:
  "destination_of \<lparr>returned = Element landing_page, pushed = []\<rparr> = Some Landing"
  by (simp add: destination_of_def)

lemma destination_of_null [simp]:
  "destination_of \<lparr>returned = Null, pushed = []\<rparr> = None"
  by (simp add: destination_of_def)

lemma Home_never_checkout: "destination_of (Home r) \<noteq> Some Checkout"
  by (simp add: Home_def destination_of_def Let_def)

section \<open>The access gate at \<open>Home\<close>\<close>

text \<open>
  C1, as amended. For every session whose subscription flag is false, \<open>Home\<close> (once
  the session status is resolved) redirects to the members destination, exactly as it
  does for a subscriber: \<open>Home\<close> tests only whether a session is present and never
  reads the flag. No input at all makes \<open>Home\<close> yield the checkout destination.
\<close>

theorem Home_non_subscriber_members:
  assumes "status r \<noteq> ''loading''"
    and "data r = Some s"
    and "user s = Some su"
    and "su_isSubscriber su = Some False"
  shows "pushed (Home r) = [''/members''] \<and> destination_of (Home r) = Some Members
         \<and> (\<forall>r'. destination_of (Home r') \<noteq> Some Checkout)"
  using assms(1,2) by (simp add: Home_when_session Home_never_checkout)

theorem Home_non_subscriber_members_witness:
  "status \<lparr>data = Some \<lparr>user = Some \<lparr>su_name = None, su_email = Some ''ann@example.com'',
        su_image = None, su_id = Some ''u1'', su_isSubscriber = Some False\<rparr>,
        expires = ''2026-12-03''\<rparr>, status = ''authenticated''\<rparr> \<noteq> ''loading''
   \<and> pushed (Home \<lparr>data = Some \<lparr>user = Some \<lparr>su_name = None,
        su_email = Some ''ann@example.com'', su_image = None, su_id = Some ''u1'',
        su_isSubscriber = Some False\<rparr>, expires = ''2026-12-03''\<rparr>,
        status = ''authenticated''\<rparr>) = [''/members'']"
  using Home_non_subscriber_members
    [of "\<lparr>data = Some \<lparr>user = Some \<lparr>su_name = None, su_email = Some ''ann@example.com'',
          su_image = None, su_id = Some ''u1'', su_isSubscriber = Some False\<rparr>,
          expires = ''2026-12-03''\<rparr>, status = ''authenticated''\<rparr>"
        "\<lparr>user = Some \<lparr>su_name = None, su_email = Some ''ann@example.com'',
          su_image = None, su_id = Some ''u1'', su_isSubscriber = Some False\<rparr>,
          expires = ''2026-12-03''\<rparr>"
        "\<lparr>su_name = None, su_email = Some ''ann@example.com'',
          su_image = None, su_id = Some ''u1'', su_isSubscriber = Some False\<rparr>"]
  by simp

text \<open>
  C1, as stated, fails: a resolved session of a user who is not a subscriber is sent to
  \<open>/members\<close>, not to the checkout destination.
\<close>

theorem Home_non_subscriber_counterexample:
  "destination_of (Home \<lparr>data = Some \<lparr>user = Some \<lparr>su_name = None,
      su_email = Some ''ann@example.com'', su_image = None, su_id = Some ''u1'',
      su_isSubscriber = Some False\<rparr>, expires = ''2026-12-03''\<rparr>,
      status = ''authenticated''\<rparr>) \<noteq> Some Checkout
   \<and> Home \<lparr>data = Some \<lparr>user = Some \<lparr>su_name = None,
      su_email = Some ''ann@example.com'', su_image = None, su_id = Some ''u1'',
      su_isSubscriber = Some False\<rparr>, expires = ''2026-12-03''\<rparr>,
      status = ''authenticated''\<rparr> = \<lparr>returned = Undefined, pushed = [''/members'']\<rparr>"
  by (simp add: Home_def destination_of_def)

text \<open>
  C2. For every session whose subscription flag is true, \<open>Home\<close> returns the members
  destination: it calls \<open>router.push('/members')\<close> once and renders nothing. A
  session is in hand only once \<open>useSession\<close> has resolved, so the status is not
  \<open>loading\<close>.
\<close>

theorem Home_subscriber_members:
  assumes "status r \<noteq> ''loading''"
    and "data r = Some s"
    and "user s = Some su"
    and "su_isSubscriber su = Some True"
  shows "Home r = \<lparr>returned = Undefined, pushed = [''/members'']\<rparr>
         \<and> destination_of (Home r) = Some Members"
  using assms(1,2) by (simp add: Home_when_session)

theorem Home_subscriber_members_witness:
  "status \<lparr>data = Some \<lparr>user = Some \<lparr>su_name = None, su_email = Some ''bob@example.com'',
        su_image = None, su_id = Some ''u2'', su_isSubscriber = Some True\<rparr>,
        expires = ''2026-12-03''\<rparr>, status = ''authenticated''\<rparr> \<noteq> ''loading''
   \<and> destination_of (Home \<lparr>data = Some \<lparr>user = Some \<lparr>su_name = None,
        su_email = Some ''bob@example.com'', su_image = None, su_id = Some ''u2'',
        su_isSubscriber = Some True\<rparr>, expires = ''2026-12-03''\<rparr>,
        status = ''authenticated''\<rparr>) = Some Members"
  using Home_subscriber_members
    [of "\<lparr>data = Some \<lparr>user = Some \<lparr>su_name = None, su_email = Some ''bob@example.com'',
          su_image = None, su_id = Some ''u2'', su_isSubscriber = Some True\<rparr>,
          expires = ''2026-12-03''\<rparr>, status = ''authenticated''\<rparr>"
        "\<lparr>user = Some \<lparr>su_name = None, su_email = Some ''bob@example.com'',
          su_image = None, su_id = Some ''u2'', su_isSubscriber = Some True\<rparr>,
          expires = ''2026-12-03''\<rparr>"
        "\<lparr>su_name = None, su_email = Some ''bob@example.com'',
          su_image = None, su_id = Some ''u2'', su_isSubscriber = Some True\<rparr>"]
  by simp

text \<open>
  C3. For every visitor with no session (\<open>useSession\<close> has resolved and its
  \<open>data\<close> is null), \<open>Home\<close> renders the landing page and pushes no route. The
  outcome is the same for every resolved status: \<open>Home\<close> is given nothing but the
  result of \<open>useSession\<close>, so a subscription flag left over in the user table or in
  an expired session cannot reach the decision.
\<close>

theorem Home_no_session_landing:
  assumes "status r \<noteq> ''loading''"
    and "data r = None"
  shows "Home r = \<lparr>returned = Element landing_page, pushed = []\<rparr>
         \<and> destination_of (Home r) = Some Landing"
  using assms by (simp add: Home_when_absent)

theorem Home_no_session_landing_witness:
  "status \<lparr>data = None, status = ''unauthenticated''\<rparr> \<noteq> ''loading''
   \<and> data \<lparr>data = None, status = ''unauthenticated''\<rparr> = None
   \<and> destination_of (Home \<lparr>data = None, status = ''unauthenticated''\<rparr>) = Some Landing"
  using Home_no_session_landing [of "\<lparr>data = None, status = ''unauthenticated''\<rparr>"]
  by simp

text \<open>
  C9. While the session status is \<open>loading\<close>, \<open>Home\<close> returns \<open>null\<close> and calls
  \<open>router.push\<close> not at all, whatever \<open>data\<close> holds: the outcome is none of the
  three destinations, and in particular not the landing page.
\<close>

theorem Home_loading_defers:
  assumes "status r = ''loading''"
  shows "Home r = \<lparr>returned = Null, pushed = []\<rparr>
         \<and> destination_of (Home r) = None
         \<and> returned (Home r) \<noteq> Element landing_page"
  using assms by (simp add: Home_when_loading)

theorem Home_loading_defers_witness:
  "status \<lparr>data = None, status = ''loading''\<rparr> = ''loading''
   \<and> Home \<lparr>data = None, status = ''loading''\<rparr> = \<lparr>returned = Null, pushed = []\<rparr>
   \<and> destination_of (Home \<lparr>data = None, status = ''loading''\<rparr>) = None"
  using Home_loading_defers [of "\<lparr>data = None, status = ''loading''\<rparr>"]
  by simp

section \<open>The session callback\<close>

text \<open>
  C8. For every authenticated request (the adapter passes the user row, and the session
  carries its \<open>user\<close> object), the session returned by the session callback carries
  the identifier and the subscription flag of that row: \<open>session.user.id = user.id\<close>
  and \<open>session.user.isSubscriber = user.isSubscriber\<close>. Nothing else of the
  session is changed.
\<close>

theorem session_callback_enriches:
  assumes "user s = Some su"
  shows "\<exists>s' su'. session_callback s (Some u) = Inr s' \<and> user s' = Some su'
           \<and> su_id su' = Some (user_id u)
           \<and> su_isSubscriber su' = Some (user_isSubscriber u)
           \<and> su_name su' = su_name su \<and> su_email su' = su_email su
           \<and> su_image su' = su_image su \<and> expires s' = expires s"
  using assms by (simp add: session_callback_def)

theorem session_callback_enriches_witness:
  "user \<lparr>user = Some \<lparr>su_name = None, su_email = Some ''bob@example.com'',
        su_image = None, su_id = None, su_isSubscriber = None\<rparr>,
        expires = ''2026-12-03''\<rparr>
     = Some \<lparr>su_name = None, su_email = Some ''bob@example.com'',
        su_image = None, su_id = None, su_isSubscriber = None\<rparr>
   \<and> session_callback
        \<lparr>user = Some \<lparr>su_name = None, su_email = Some ''bob@example.com'',
          su_image = None, su_id = None, su_isSubscriber = None\<rparr>,
          expires = ''2026-12-03''\<rparr>
        (Some \<lparr>user_id = ''u2'', user_email = Some ''bob@example.com'',
          user_isSubscriber = True\<rparr>)
     = Inr \<lparr>user = Some \<lparr>su_name = None, su_email = Some ''bob@example.com'',
          su_image = None, su_id = Some ''u2'', su_isSubscriber = Some True\<rparr>,
          expires = ''2026-12-03''\<rparr>"
  using session_callback_enriches
    [of "\<lparr>user = Some \<lparr>su_name = None, su_email = Some ''bob@example.com'',
          su_image = None, su_id = None, su_isSubscriber = None\<rparr>,
          expires = ''2026-12-03''\<rparr>"
        "\<lparr>su_name = None, su_email = Some ''bob@example.com'',
          su_image = None, su_id = None, su_isSubscriber = None\<rparr>"
        "\<lparr>user_id = ''u2'', user_email = Some ''bob@example.com'',
          user_isSubscriber = True\<rparr>"]
  by (simp add: session_callback_def)

section \<open>Session lifetime\<close>








section \<open>The checkout session initiator\<close>

text \<open>
  C7. A request with no authenticated user identifier is rejected with the
  authorization error; no address of a payment page is produced, whatever the
  environment and the payment processor.
\<close>

theorem stripe_session_rejects_anonymous:
  "stripe_session e create None = Inl Unauthorized
   \<and> (\<forall>url. stripe_session e create None \<noteq> Inr url)"
  by (simp add: stripe_session_def)

theorem stripe_session_rejects_anonymous_witness:
  "stripe_session \<lparr>STRIPE_PRICE_ID = ''price_1'', BASE_URL = ''http://localhost:3000''\<rparr>
      (\<lambda>p. ''https://checkout.stripe.com/pay/'' @ client_reference_id p) None
     = Inl Unauthorized
   \<and> stripe_session \<lparr>STRIPE_PRICE_ID = ''price_1'', BASE_URL = ''http://localhost:3000''\<rparr>
      (\<lambda>p. ''https://checkout.stripe.com/pay/'' @ client_reference_id p) (Some ''u1'')
     = Inr ''https://checkout.stripe.com/pay/u1''"
  using stripe_session_rejects_anonymous
    [of "\<lparr>STRIPE_PRICE_ID = ''price_1'', BASE_URL = ''http://localhost:3000''\<rparr>"
        "\<lambda>p. ''https://checkout.stripe.com/pay/'' @ client_reference_id p"]
  by (simp add: stripe_session_def)

section \<open>The payment confirmation handler\<close>

lemma stripe_success_ok:
  assumes "retrieve ref = Some cs" and "completed cs" and "reference cs = Some uid"
    and "store uid = Some u"
  shows "stripe_success retrieve (Some ref) store
           = (Inr (), store(uid \<mapsto> u\<lparr>user_isSubscriber := True\<rparr>))"
  using assms by (simp add: stripe_success_def)

text \<open>
  C4. For every payment-session reference and every user store, running the
  confirmation handler a second time with the same reference, against the same
  processor, leaves the user store exactly as the first run left it.
\<close>

theorem stripe_success_idempotent:
  "snd (stripe_success retrieve r (snd (stripe_success retrieve r store)))
     = snd (stripe_success retrieve r store)"
  by (simp add: stripe_success_def split: option.split)

theorem stripe_success_idempotent_witness:
  "snd (stripe_success
          [''cs_1'' \<mapsto> \<lparr>reference = Some ''u1'', completed = True\<rparr>]
          (Some ''cs_1'')
          (snd (stripe_success
                  [''cs_1'' \<mapsto> \<lparr>reference = Some ''u1'', completed = True\<rparr>]
                  (Some ''cs_1'')
                  [''u1'' \<mapsto> \<lparr>user_id = ''u1'', user_email = None,
                               user_isSubscriber = False\<rparr>])))
     = [''u1'' \<mapsto> \<lparr>user_id = ''u1'', user_email = None, user_isSubscriber = True\<rparr>]"
  using stripe_success_idempotent
    [of "[''cs_1'' \<mapsto> \<lparr>reference = Some ''u1'', completed = True\<rparr>]" "Some ''cs_1''"
        "[''u1'' \<mapsto> \<lparr>user_id = ''u1'', user_email = None, user_isSubscriber = False\<rparr>]"]
  by (simp add: stripe_success_def)

text \<open>
  C5. For every user store and every reference to a completed payment correlated to a
  stored user \<open>uid\<close>, the handler succeeds, the row of \<open>uid\<close> afterwards is its
  old row with the subscription flag true, and the row of every other user is unchanged.
\<close>

theorem stripe_success_sets_one_flag:
  assumes "retrieve ref = Some cs" and "completed cs" and "reference cs = Some uid"
    and "store uid = Some u"
  shows "fst (stripe_success retrieve (Some ref) store) = Inr ()
         \<and> snd (stripe_success retrieve (Some ref) store) uid
             = Some (u\<lparr>user_isSubscriber := True\<rparr>)
         \<and> (\<forall>v. v \<noteq> uid \<longrightarrow>
               snd (stripe_success retrieve (Some ref) store) v = store v)"
  using assms by (simp add: stripe_success_ok)

theorem stripe_success_sets_one_flag_witness:
  "snd (stripe_success
          [''cs_1'' \<mapsto> \<lparr>reference = Some ''u1'', completed = True\<rparr>]
          (Some ''cs_1'')
          [''u1'' \<mapsto> \<lparr>user_id = ''u1'', user_email = Some ''ann@example.com'',
                       user_isSubscriber = False\<rparr>,
           ''u2'' \<mapsto> \<lparr>user_id = ''u2'', user_email = Some ''bob@example.com'',
                       user_isSubscriber = False\<rparr>]) ''u1''
     = Some \<lparr>user_id = ''u1'', user_email = Some ''ann@example.com'',
              user_isSubscriber = True\<rparr>
   \<and> snd (stripe_success
          [''cs_1'' \<mapsto> \<lparr>reference = Some ''u1'', completed = True\<rparr>]
          (Some ''cs_1'')
          [''u1'' \<mapsto> \<lparr>user_id = ''u1'', user_email = Some ''ann@example.com'',
                       user_isSubscriber = False\<rparr>,
           ''u2'' \<mapsto> \<lparr>user_id = ''u2'', user_email = Some ''bob@example.com'',
                       user_isSubscriber = False\<rparr>]) ''u2''
     = Some \<lparr>user_id = ''u2'', user_email = Some ''bob@example.com'',
              user_isSubscriber = False\<rparr>"
  using stripe_success_sets_one_flag
    [of "[''cs_1'' \<mapsto> \<lparr>reference = Some ''u1'', completed = True\<rparr>]" "''cs_1''"
        "\<lparr>reference = Some ''u1'', completed = True\<rparr>" "''u1''"
        "[''u1'' \<mapsto> \<lparr>user_id = ''u1'', user_email = Some ''ann@example.com'',
                     user_isSubscriber = False\<rparr>,
          ''u2'' \<mapsto> \<lparr>user_id = ''u2'', user_email = Some ''bob@example.com'',
                     user_isSubscriber = False\<rparr>]"
        "\<lparr>user_id = ''u1'', user_email = Some ''ann@example.com'',
          user_isSubscriber = False\<rparr>"]
  by simp

text \<open>
  C6. When the reference is missing, or unknown to the payment processor, or its
  payment is not completed, or its payment session carries no correlation reference, or
  the correlation reference names no stored user, the handler reports not-found and
  returns the user store unchanged.
\<close>

theorem stripe_success_not_found:
  assumes "r = None
           \<or> (\<exists>ref. r = Some ref \<and> retrieve ref = None)
           \<or> (\<exists>ref cs. r = Some ref \<and> retrieve ref = Some cs \<and> \<not> completed cs)
           \<or> (\<exists>ref cs. r = Some ref \<and> retrieve ref = Some cs \<and> reference cs = None)
           \<or> (\<exists>ref cs uid. r = Some ref \<and> retrieve ref = Some cs
                  \<and> reference cs = Some uid \<and> store uid = None)"
  shows "stripe_success retrieve r store = (Inl NotFound, store)"
  using assms by (auto simp: stripe_success_def)

theorem stripe_success_not_found_witness:
  "stripe_success
      [''cs_1'' \<mapsto> \<lparr>reference = Some ''u9'', completed = True\<rparr>]
      (Some ''cs_1'')
      [''u1'' \<mapsto> \<lparr>user_id = ''u1'', user_email = Some ''ann@example.com'',
                   user_isSubscriber = False\<rparr>]
     = (Inl NotFound,
        [''u1'' \<mapsto> \<lparr>user_id = ''u1'', user_email = Some ''ann@example.com'',
                     user_isSubscriber = False\<rparr>])"
proof -
  have "\<exists>ref cs uid. Some ''cs_1'' = Some ref
          \<and> [''cs_1'' \<mapsto> \<lparr>reference = Some ''u9'', completed = True\<rparr>] ref = Some cs
          \<and> reference cs = Some uid
          \<and> [''u1'' \<mapsto> \<lparr>user_id = ''u1'', user_email = Some ''ann@example.com'',
                user_isSubscriber = False\<rparr>] uid = None"
    by simp
  then show ?thesis
    by (intro stripe_success_not_found) blast
qed

end
